theory Spec2Isabelle
  imports Complex_Main "HOL-Library.Product_Lexorder" "HOL-Library.List_Lexorder"
    "HOL-Library.Char_ord"
begin

section \<open>Floating-point results\<close>

text \<open>
  The statistics are computed by NumPy and pandas in binary floating point. The model
  takes every finite float for the real number it stands for and every finite operation
  for the exact one, so rounding of the last bit is outside the model. What is kept is
  the part of IEEE arithmetic the code relies on: a division by zero does not raise, it
  yields an infinity or NaN, and NaN spreads through later arithmetic. What the last bit
  can decide is therefore not stated below: an upper bound that the exact value attains,
  or the equality of two sums taken in different orders.
\<close>

datatype npfloat = Fin real | PosInf | NegInf | NaN

text \<open>True division of two finite NumPy numbers, as under \<^verbatim>\<open>np.errstate(divide="ignore", invalid="ignore")\<close>.\<close>

definition np_div :: "real \<Rightarrow> real \<Rightarrow> npfloat" where
  "np_div x y =
     (if y \<noteq> 0 then Fin (x / y)
      else if x = 0 then NaN
      else if 0 < x then PosInf
      else NegInf)"

definition DBL_MAX :: real where
  "DBL_MAX = (2 ^ 53 - 1) * 2 ^ 971"

text \<open>\<^verbatim>\<open>np.nan_to_num\<close>: NaN becomes 0, an infinity the largest finite float of its sign.\<close>

fun nan_to_num :: "npfloat \<Rightarrow> real" where
  "nan_to_num (Fin x) = x"
| "nan_to_num PosInf = DBL_MAX"
| "nan_to_num NegInf = - DBL_MAX"
| "nan_to_num NaN = 0"

section \<open>Contingency tables and the chi-squared statistic\<close>

text \<open>
  A contingency table is a two-dimensional array of 64-bit integers: its shape \<open>(r, k)\<close>
  and the count at each position. The sums of counts are taken as integers, a sum of
  counts being at most the number of rows of a table held in memory. The product of a row
  total and a column total is the one integer of the computation that leaves the 64-bit
  range with such counts (from about \<open>3.04 * 10^9\<close> rows on), and it wraps as NumPy's
  \<^verbatim>\<open>int64\<close> product does.
\<close>

record ctable =
  shape_r :: nat
  shape_k :: nat
  observed :: "nat \<Rightarrow> nat \<Rightarrow> int"

definition of_rows :: "int list list \<Rightarrow> ctable" where
  "of_rows rs =
     \<lparr>shape_r = length rs,
      shape_k = (case rs of [] \<Rightarrow> 0 | r # _ \<Rightarrow> length r),
      observed = (\<lambda>i j. rs ! i ! j)\<rparr>"

definition nonneg_counts :: "ctable \<Rightarrow> bool" where
  "nonneg_counts T = (\<forall>i<shape_r T. \<forall>j<shape_k T. 0 \<le> observed T i j)"

text \<open>\<^verbatim>\<open>observed.sum(axis=1)\<close>, \<^verbatim>\<open>observed.sum(axis=0)\<close> and \<^verbatim>\<open>observed.sum()\<close>.\<close>

definition row_sum :: "ctable \<Rightarrow> nat \<Rightarrow> int" where
  "row_sum T i = (\<Sum>j<shape_k T. observed T i j)"

definition col_sum :: "ctable \<Rightarrow> nat \<Rightarrow> int" where
  "col_sum T j = (\<Sum>i<shape_r T. observed T i j)"

definition total :: "ctable \<Rightarrow> int" where
  "total T = (\<Sum>i<shape_r T. \<Sum>j<shape_k T. observed T i j)"

text \<open>A 64-bit signed integer operation keeps the low 64 bits of the exact result.\<close>

definition int64 :: "int \<Rightarrow> int" where
  "int64 x = (x + 2 ^ 63) mod 2 ^ 64 - 2 ^ 63"

text \<open>
  \<^verbatim>\<open>expected = row_sum @ col_sum / total if total else 0\<close>: the matrix product of the
  column of row totals and the row of column totals is computed in \<^verbatim>\<open>int64\<close>, the
  division in floats; the scalar 0 is broadcast.
\<close>

definition expected :: "ctable \<Rightarrow> nat \<Rightarrow> nat \<Rightarrow> real" where
  "expected T i j =
     (if total T \<noteq> 0
      then real_of_int (int64 (row_sum T i * col_sum T j)) / real_of_int (total T)
      else 0)"

definition chi2_cell :: "ctable \<Rightarrow> nat \<Rightarrow> nat \<Rightarrow> real" where
  "chi2_cell T i j =
     nan_to_num (np_div ((real_of_int (observed T i j) - expected T i j)\<^sup>2) (expected T i j))"

definition ss_chi2 :: "ctable \<Rightarrow> real" where
  "ss_chi2 T =
     (if shape_r T * shape_k T = 0 then 0
      else (\<Sum>i<shape_r T. \<Sum>j<shape_k T. chi2_cell T i j))"

section \<open>Cram\'er's V\<close>

definition cramers_v :: "ctable \<Rightarrow> real" where
  "cramers_v T =
     (let chi2 = ss_chi2 T;
          n = total T
      in if n = 0 then 0
         else
           let phi2 = chi2 / real_of_int n;
               r = int (shape_r T);
               k = int (shape_k T);
               phi2corr =
                 (if 1 < n
                  then max 0 (phi2 - real_of_int ((k - 1) * (r - 1)) / real_of_int (n - 1))
                  else 0);
               rcorr =
                 (if 1 < n
                  then real_of_int r - real_of_int ((r - 1)\<^sup>2) / real_of_int (n - 1)
                  else 0);
               kcorr =
                 (if 1 < n
                  then real_of_int k - real_of_int ((k - 1)\<^sup>2) / real_of_int (n - 1)
                  else 0);
               denom = min (kcorr - 1) (rcorr - 1)
           in if denom \<le> 0 then 0 else sqrt (phi2corr / denom))"

subsection \<open>The formulas as the specification words them\<close>

definition spec_phi2 :: "ctable \<Rightarrow> real" where
  "spec_phi2 T = ss_chi2 T / real_of_int (total T)"

definition spec_phi2corr :: "ctable \<Rightarrow> real" where
  "spec_phi2corr T =
     (if total T \<le> 1 then 0
      else max 0 (spec_phi2 T
             - (real (shape_k T) - 1) * (real (shape_r T) - 1) / (real_of_int (total T) - 1)))"

definition spec_rcorr :: "ctable \<Rightarrow> real" where
  "spec_rcorr T =
     (if total T \<le> 1 then 0
      else real (shape_r T) - (real (shape_r T) - 1)\<^sup>2 / (real_of_int (total T) - 1))"

definition spec_kcorr :: "ctable \<Rightarrow> real" where
  "spec_kcorr T =
     (if total T \<le> 1 then 0
      else real (shape_k T) - (real (shape_k T) - 1)\<^sup>2 / (real_of_int (total T) - 1))"

definition spec_denom :: "ctable \<Rightarrow> real" where
  "spec_denom T = min (spec_kcorr T - 1) (spec_rcorr T - 1)"

definition spec_cramers_v :: "ctable \<Rightarrow> real" where
  "spec_cramers_v T =
     (if total T = 0 \<or> spec_denom T \<le> 0 then 0
      else sqrt (spec_phi2corr T / spec_denom T))"

definition spec_expected :: "ctable \<Rightarrow> nat \<Rightarrow> nat \<Rightarrow> real" where
  "spec_expected T i j =
     real_of_int (row_sum T i) * real_of_int (col_sum T j) / real_of_int (total T)"

definition spec_chi2_cell :: "ctable \<Rightarrow> nat \<Rightarrow> nat \<Rightarrow> real" where
  "spec_chi2_cell T i j =
     (if spec_expected T i j = 0 then 0
      else (real_of_int (observed T i j) - spec_expected T i j)\<^sup>2 / spec_expected T i j)"

definition spec_chi2 :: "ctable \<Rightarrow> real" where
  "spec_chi2 T = (\<Sum>i<shape_r T. \<Sum>j<shape_k T. spec_chi2_cell T i j)"

text \<open>The grand total, and every product of a row total and a column total, is below \<open>2^63\<close>.\<close>

definition int64_safe :: "ctable \<Rightarrow> bool" where
  "int64_safe T =
     (total T < 2 ^ 63
      \<and> (\<forall>i<shape_r T. \<forall>j<shape_k T. row_sum T i * col_sum T j < 2 ^ 63))"

section \<open>Arithmetic on float results\<close>







subsection \<open>Rounding to decimals\<close>

text \<open>
  \<^verbatim>\<open>round(x, ndigits)\<close> rounds to the nearest multiple of \<open>10^(-ndigits)\<close>; NaN and
  the infinities are returned as they are. On the exact value a tie goes to the even
  neighbour. The float the program rounds can sit on either side of an exact tie, so
  what is proved of a rounded result is only what holds for both neighbours: it is a
  multiple of \<open>10^(-ndigits)\<close> at most half a unit from the exact value.
\<close>

definition rint :: "real \<Rightarrow> int" where
  "rint x =
     (let f = \<lfloor>x\<rfloor>; d = x - of_int f
      in if d < 1 / 2 then f
         else if 1 / 2 < d then f + 1
         else if even f then f
         else f + 1)"

definition py_round :: "real \<Rightarrow> nat \<Rightarrow> real" where
  "py_round x ndigits = of_int (rint (x * 10 ^ ndigits)) / 10 ^ ndigits"


text \<open>\<open>y\<close> is \<open>x\<close> rounded to \<open>n\<close> decimals, whichever way a tie goes.\<close>

definition rounded_to :: "nat \<Rightarrow> real \<Rightarrow> real \<Rightarrow> bool" where
  "rounded_to n x y =
     ((\<exists>k::int. y * 10 ^ n = real_of_int k) \<and> \<bar>y - x\<bar> \<le> 1 / (2 * 10 ^ n))"

section \<open>Tables\<close>

text \<open>
  A table is a pandas DataFrame: its number of rows and its columns in order, each with
  a label, a declared type and one value per row, \<open>None\<close> for a missing value. The
  declared types are those the loaders produce: 64-bit integers and floats, booleans,
  objects (text) and timestamps.
\<close>

datatype dtype = Int64 | Float64 | Bool | Object | Datetime64

datatype val = VInt int | VFloat real | VBool bool | VStr string | VTime int

record column =
  cname :: string
  cdtype :: dtype
  cvals :: "val option list"

record dataframe =
  len :: nat
  columns :: "column list"

text \<open>
  The values a column of each declared type holds: 64-bit integers, reals for the finite
  floats, booleans, text, timestamps as 64-bit integers. Integer and boolean columns have
  no missing value (pandas stores such a column as floats or objects). A frame is well
  formed when its labels are distinct, every column has one entry per row and the entries
  of every column are of its declared type.
\<close>

fun typed_val :: "dtype \<Rightarrow> val option \<Rightarrow> bool" where
  "typed_val Int64 (Some (VInt i)) = (- (2 ^ 63) \<le> i \<and> i < 2 ^ 63)"
| "typed_val Float64 (Some (VFloat x)) = True"
| "typed_val Float64 None = True"
| "typed_val Bool (Some (VBool b)) = True"
| "typed_val Object (Some (VStr s)) = True"
| "typed_val Object None = True"
| "typed_val Datetime64 (Some (VTime t)) = (- (2 ^ 63) \<le> t \<and> t < 2 ^ 63)"
| "typed_val Datetime64 None = True"
| "typed_val d v = False"

definition wf_dataframe :: "dataframe \<Rightarrow> bool" where
  "wf_dataframe df =
     (distinct (map cname (columns df))
      \<and> list_all (\<lambda>c. length (cvals c) = len df) (columns df)
      \<and> list_all (\<lambda>c. list_all (typed_val (cdtype c)) (cvals c)) (columns df))"

fun dropna :: "'a option list \<Rightarrow> 'a list" where
  "dropna [] = []"
| "dropna (None # xs) = dropna xs"
| "dropna (Some x # xs) = x # dropna xs"

text \<open>\<^verbatim>\<open>df[col]\<close> for a label of \<^verbatim>\<open>df.columns\<close>; no caller passes another label.\<close>

definition getcol :: "dataframe \<Rightarrow> string \<Rightarrow> column option" where
  "getcol df name = find (\<lambda>c. cname c = name) (columns df)"

definition series :: "dataframe \<Rightarrow> string \<Rightarrow> val option list" where
  "series df name = (case getcol df name of Some c \<Rightarrow> cvals c | None \<Rightarrow> [])"

definition select :: "dataframe \<Rightarrow> string list \<Rightarrow> column list" where
  "select df names = List.map_filter (getcol df) names"

subsection \<open>The column classifier\<close>

fun is_numeric_dtype :: "dtype \<Rightarrow> bool" where
  "is_numeric_dtype Int64 = True"
| "is_numeric_dtype Float64 = True"
| "is_numeric_dtype Bool = True"
| "is_numeric_dtype Object = False"
| "is_numeric_dtype Datetime64 = False"

fun is_bool_dtype :: "dtype \<Rightarrow> bool" where
  "is_bool_dtype Bool = True"
| "is_bool_dtype d = False"

fun is_object_dtype :: "dtype \<Rightarrow> bool" where
  "is_object_dtype Object = True"
| "is_object_dtype d = False"

definition nunique :: "column \<Rightarrow> nat" where
  "nunique s = length (remdups (dropna (cvals s)))"

definition is_numeric :: "column \<Rightarrow> bool" where
  "is_numeric s = is_numeric_dtype (cdtype s)"

definition is_categorical :: "column \<Rightarrow> int \<Rightarrow> bool" where
  "is_categorical s max_unique =
     (if is_bool_dtype (cdtype s) \<or> is_object_dtype (cdtype s) then True
      else let unique_count = nunique s
           in int unique_count \<le> max_unique \<and> \<not> is_numeric s)"

definition get_numeric_columns :: "dataframe \<Rightarrow> string list" where
  "get_numeric_columns df = map cname (filter (\<lambda>c. is_numeric_dtype (cdtype c)) (columns df))"

definition get_categorical_columns :: "dataframe \<Rightarrow> string list" where
  "get_categorical_columns df = map cname (filter (\<lambda>c. is_categorical c 50) (columns df))"

section \<open>Correlation matrices\<close>

text \<open>The result frames: row labels, column labels and the entries row by row.\<close>

record corr_matrix =
  index :: "string list"
  cols :: "string list"
  data :: "npfloat list list"

definition empty_frame :: corr_matrix where
  "empty_frame = \<lparr>index = [], cols = [], data = []\<rparr>"

definition is_square :: "corr_matrix \<Rightarrow> bool" where
  "is_square m =
     (index m = cols m \<and> length (data m) = length (index m)
      \<and> list_all (\<lambda>row. length row = length (cols m)) (data m))"

subsection \<open>Pearson correlation of numeric columns\<close>

text \<open>
  The conversion of a 64-bit integer to a float: exact up to \<open>2^53\<close>, beyond that the
  nearest multiple of the spacing of the floats of that size, a tie going to the even one.
\<close>

function bit_length :: "int \<Rightarrow> nat" where
  "bit_length i = (if i \<le> 0 then 0 else Suc (bit_length (i div 2)))"
  by pat_completeness auto

termination
  by (relation "measure nat") auto

declare bit_length.simps [simp del]

definition float64_of_int :: "int \<Rightarrow> real" where
  "float64_of_int i =
     (if \<bar>i\<bar> \<le> 2 ^ 53 then real_of_int i
      else
        let spacing = 2 ^ (bit_length \<bar>i\<bar> - 53)
        in real_of_int (rint (real_of_int i / spacing)) * spacing)"

text \<open>
  \<^verbatim>\<open>DataFrame.corr()\<close> with its defaults: the columns as floats, and for each pair
  of columns Pearson's coefficient over the rows where both have a value, NaN where no
  such row exists or where the product of the two sums of squared deviations is 0. The
  sums are those of the exact values: the rounding of each step, and the overflow or
  underflow of a product of very large or very small sums, are outside the model.
\<close>

fun as_float :: "val option \<Rightarrow> real option" where
  "as_float None = None"
| "as_float (Some (VInt i)) = Some (float64_of_int i)"
| "as_float (Some (VFloat x)) = Some x"
| "as_float (Some (VBool b)) = Some (if b then 1 else 0)"
| "as_float (Some (VStr s)) = None"
| "as_float (Some (VTime t)) = None"

definition floats :: "column \<Rightarrow> real option list" where
  "floats c = map as_float (cvals c)"

fun complete_pairs :: "'a option list \<Rightarrow> 'b option list \<Rightarrow> ('a \<times> 'b) list" where
  "complete_pairs (Some x # xs) (Some y # ys) = (x, y) # complete_pairs xs ys"
| "complete_pairs (x # xs) (y # ys) = complete_pairs xs ys"
| "complete_pairs xs ys = []"

definition mean :: "real list \<Rightarrow> real" where
  "mean xs = sum_list xs / real (length xs)"

definition pearson :: "real option list \<Rightarrow> real option list \<Rightarrow> npfloat" where
  "pearson xs ys =
     (let ps = complete_pairs xs ys;
          nobs = length ps
      in if nobs < 1 then NaN
         else
           let meanx = mean (map fst ps);
               meany = mean (map snd ps);
               ssqdm_x = (\<Sum>p\<leftarrow>ps. (fst p - meanx)\<^sup>2);
               ssqdm_y = (\<Sum>p\<leftarrow>ps. (snd p - meany)\<^sup>2);
               covxy = (\<Sum>p\<leftarrow>ps. (fst p - meanx) * (snd p - meany));
               divisor = sqrt (ssqdm_x * ssqdm_y)
           in if divisor \<noteq> 0 then Fin (max (- 1) (min 1 (covxy / divisor))) else NaN)"

definition corr :: "column list \<Rightarrow> corr_matrix" where
  "corr cs =
     \<lparr>index = map cname cs, cols = map cname cs,
      data = map (\<lambda>x. map (\<lambda>y. pearson (floats x) (floats y)) cs) cs\<rparr>"

definition numeric_correlation :: "dataframe \<Rightarrow> corr_matrix" where
  "numeric_correlation df =
     (let numeric_cols = get_numeric_columns df
      in if numeric_cols = [] then empty_frame
         else corr (select df numeric_cols))"

subsection \<open>Cram\'er's V of categorical columns\<close>

text \<open>
  \<^verbatim>\<open>pd.crosstab(x, y)\<close>: over the rows where both columns have a value, the count of
  every pair of a value of \<open>x\<close> and a value of \<open>y\<close>; the rows and columns of the result
  are the values that occur, in ascending order.
\<close>

fun val_key :: "val \<Rightarrow> nat \<times> real \<times> string" where
  "val_key (VInt i) = (0, real_of_int i, [])"
| "val_key (VFloat x) = (0, x, [])"
| "val_key (VBool b) = (0, if b then 1 else 0, [])"
| "val_key (VTime t) = (1, real_of_int t, [])"
| "val_key (VStr s) = (2, 0, s)"

definition labels :: "val list \<Rightarrow> val list" where
  "labels vs = sort_key val_key (remdups vs)"

definition crosstab :: "val option list \<Rightarrow> val option list \<Rightarrow> ctable" where
  "crosstab xs ys =
     (let ps = complete_pairs xs ys;
          rl = labels (map fst ps);
          cl = labels (map snd ps)
      in \<lparr>shape_r = length rl, shape_k = length cl,
          observed = (\<lambda>i j. int (count_list ps (rl ! i, cl ! j)))\<rparr>)"

definition categorical_correlation :: "dataframe \<Rightarrow> corr_matrix" where
  "categorical_correlation df =
     (let cat_cols = get_categorical_columns df
      in if length cat_cols < 2 then empty_frame
         else
           \<lparr>index = cat_cols, cols = cat_cols,
            data =
              map (\<lambda>col_x.
                    map (\<lambda>col_y.
                          if col_x = col_y then Fin 1
                          else Fin (cramers_v (crosstab (series df col_x) (series df col_y))))
                      cat_cols)
                cat_cols\<rparr>)"

section \<open>Cleaning diagnostics\<close>

subsection \<open>Duplicates\<close>

text \<open>
  \<^verbatim>\<open>duplicated()\<close> marks every element that equals an earlier one; two missing values
  count as equal. On a frame with no row or no column pandas returns the empty series.
\<close>

fun duplicated_from :: "'a list \<Rightarrow> 'a list \<Rightarrow> bool list" where
  "duplicated_from seen [] = []"
| "duplicated_from seen (x # xs) = (x \<in> set seen) # duplicated_from (x # seen) xs"

definition duplicated :: "'a list \<Rightarrow> bool list" where
  "duplicated xs = duplicated_from [] xs"

definition count_true :: "bool list \<Rightarrow> nat" where
  "count_true bs = length (filter (\<lambda>b. b) bs)"






record dup_summary =
  duplicate_rows :: nat
  duplicate_percent :: real
  total_rows :: nat
  unique_rows :: int
  duplicates_by_column :: "(string \<times> nat) list"


subsection \<open>The quality score\<close>






subsection \<open>Outliers\<close>

















section \<open>Loading and the run\<close>



















section \<open>Example inputs\<close>

text \<open>Columns and small tables: an integer 0/1 flag, a boolean, a text column.\<close>

definition int_flag :: column where
  "int_flag = \<lparr>cname = ''flag'', cdtype = Int64, cvals = [Some (VInt 0), Some (VInt 1), Some (VInt 0)]\<rparr>"

definition bool_flag :: column where
  "bool_flag = \<lparr>cname = ''member'', cdtype = Bool, cvals = [Some (VBool True), Some (VBool False), Some (VBool True)]\<rparr>"

definition city :: column where
  "city = \<lparr>cname = ''city'', cdtype = Object, cvals = [Some (VStr ''x''), Some (VStr ''y''), None]\<rparr>"

definition sample_df :: dataframe where
  "sample_df = \<lparr>len = 3, columns = [int_flag, bool_flag, city]\<rparr>"

definition single_bool_df :: dataframe where
  "single_bool_df = \<lparr>len = 3, columns = [bool_flag]\<rparr>"

definition constant_df :: dataframe where
  "constant_df = \<lparr>len = 2, columns = [\<lparr>cname = ''n'', cdtype = Int64, cvals = [Some (VInt 7), Some (VInt 7)]\<rparr>]\<rparr>"










section \<open>Sums over a table of non-negative counts\<close>

lemma total_rows: "total T = (\<Sum>i<shape_r T. row_sum T i)"
  by (simp add: total_def row_sum_def)

lemma total_cols: "total T = (\<Sum>j<shape_k T. col_sum T j)"
  unfolding total_def col_sum_def by (rule sum.swap)

lemma row_sum_nonneg:
  assumes "nonneg_counts T" and "i < shape_r T"
  shows "0 \<le> row_sum T i"
  using assms unfolding row_sum_def nonneg_counts_def by (intro sum_nonneg) simp

lemma col_sum_nonneg:
  assumes "nonneg_counts T" and "j < shape_k T"
  shows "0 \<le> col_sum T j"
  using assms unfolding col_sum_def nonneg_counts_def by (intro sum_nonneg) simp

lemma observed_le_row_sum:
  assumes "nonneg_counts T" and "i < shape_r T" and "j < shape_k T"
  shows "observed T i j \<le> row_sum T i"
proof -
  have "observed T i j = (\<Sum>j'\<in>{j}. observed T i j')" by simp
  also have "\<dots> \<le> (\<Sum>j'<shape_k T. observed T i j')"
    using assms unfolding nonneg_counts_def by (intro sum_mono2) auto
  finally show ?thesis by (simp add: row_sum_def)
qed

lemma observed_le_col_sum:
  assumes "nonneg_counts T" and "i < shape_r T" and "j < shape_k T"
  shows "observed T i j \<le> col_sum T j"
proof -
  have "observed T i j = (\<Sum>i'\<in>{i}. observed T i' j)" by simp
  also have "\<dots> \<le> (\<Sum>i'<shape_r T. observed T i' j)"
    using assms unfolding nonneg_counts_def by (intro sum_mono2) auto
  finally show ?thesis by (simp add: col_sum_def)
qed

lemma row_sum_le_total:
  assumes "nonneg_counts T" and "i < shape_r T"
  shows "row_sum T i \<le> total T"
proof -
  have "row_sum T i = (\<Sum>i'\<in>{i}. row_sum T i')" by simp
  also have "\<dots> \<le> (\<Sum>i'<shape_r T. row_sum T i')"
    using assms by (intro sum_mono2) (auto simp: row_sum_nonneg)
  finally show ?thesis by (simp add: total_rows)
qed

lemma total_nonneg:
  assumes "nonneg_counts T"
  shows "0 \<le> total T"
  unfolding total_rows using assms by (intro sum_nonneg) (simp add: row_sum_nonneg)

lemma int64_id:
  assumes "0 \<le> x" and "x < 2 ^ 63"
  shows "int64 x = x"
proof -
  have "(x + 2 ^ 63) mod 2 ^ 64 = x + 2 ^ 63"
    using assms by (intro mod_pos_pos_trivial) simp_all
  then show ?thesis by (simp add: int64_def)
qed

lemma expected_safe:
  assumes nn: "nonneg_counts T" and safe: "int64_safe T"
    and i: "i < shape_r T" and j: "j < shape_k T"
  shows "expected T i j
    = (if total T \<noteq> 0
       then real_of_int (row_sum T i * col_sum T j) / real_of_int (total T) else 0)"
proof -
  have "0 \<le> row_sum T i * col_sum T j"
    using row_sum_nonneg [OF nn i] col_sum_nonneg [OF nn j] by simp
  moreover have "row_sum T i * col_sum T j < 2 ^ 63"
    using safe i j by (simp add: int64_safe_def)
  ultimately have "int64 (row_sum T i * col_sum T j) = row_sum T i * col_sum T j"
    by (rule int64_id)
  then show ?thesis by (simp add: expected_def)
qed

lemma total_zero_observed_zero:
  assumes nn: "nonneg_counts T" and t: "total T = 0"
    and i: "i < shape_r T" and j: "j < shape_k T"
  shows "observed T i j = 0"
proof -
  have "observed T i j \<le> row_sum T i" by (rule observed_le_row_sum [OF nn i j])
  also have "\<dots> \<le> total T" by (rule row_sum_le_total [OF nn i])
  finally have "observed T i j \<le> 0" using t by simp
  moreover have "0 \<le> observed T i j" using nn i j by (simp add: nonneg_counts_def)
  ultimately show ?thesis by simp
qed

lemma expected_zero_observed_zero:
  assumes nn: "nonneg_counts T" and safe: "int64_safe T"
    and i: "i < shape_r T" and j: "j < shape_k T"
    and e: "expected T i j = 0"
  shows "observed T i j = 0"
proof (cases "total T = 0")
  case True
  then show ?thesis by (rule total_zero_observed_zero [OF nn _ i j])
next
  case False
  with e have "row_sum T i * col_sum T j = 0"
    by (simp add: expected_safe [OF nn safe i j])
  then have "row_sum T i = 0 \<or> col_sum T j = 0" by simp
  moreover have "observed T i j \<le> row_sum T i" by (rule observed_le_row_sum [OF nn i j])
  moreover have "observed T i j \<le> col_sum T j" by (rule observed_le_col_sum [OF nn i j])
  moreover have "0 \<le> observed T i j" using nn i j by (simp add: nonneg_counts_def)
  ultimately show ?thesis by auto
qed

lemma chi2_cell_spec:
  assumes nn: "nonneg_counts T" and safe: "int64_safe T"
    and i: "i < shape_r T" and j: "j < shape_k T"
  shows "chi2_cell T i j = spec_chi2_cell T i j"
proof (cases "expected T i j = 0")
  case True
  then have o: "observed T i j = 0" by (rule expected_zero_observed_zero [OF nn safe i j])
  have "spec_expected T i j = 0"
    using True by (auto simp: expected_safe [OF nn safe i j] spec_expected_def split: if_splits)
  then show ?thesis using True o by (simp add: chi2_cell_def spec_chi2_cell_def np_div_def)
next
  case False
  then have t: "total T \<noteq> 0" by (auto simp: expected_def split: if_splits)
  then have "spec_expected T i j = expected T i j"
    by (simp add: expected_safe [OF nn safe i j] spec_expected_def)
  then show ?thesis using False by (simp add: chi2_cell_def spec_chi2_cell_def np_div_def)
qed

lemma total_zero_cells_zero:
  assumes nn: "nonneg_counts T" and t: "total T = 0"
    and i: "i < shape_r T" and j: "j < shape_k T"
  shows "chi2_cell T i j = 0"
proof -
  have e: "expected T i j = 0" using t by (simp add: expected_def)
  have "observed T i j = 0" by (rule total_zero_observed_zero [OF nn t i j])
  then show ?thesis using e by (simp add: chi2_cell_def np_div_def)
qed

lemma ss_chi2_eq_spec:
  assumes nn: "nonneg_counts T" and safe: "int64_safe T"
  shows "ss_chi2 T = spec_chi2 T"
proof -
  have cells: "(\<Sum>i<shape_r T. \<Sum>j<shape_k T. chi2_cell T i j) = spec_chi2 T"
    unfolding spec_chi2_def
    by (intro sum.cong refl) (simp add: chi2_cell_spec [OF nn safe])
  have empty: "spec_chi2 T = 0" if "shape_r T * shape_k T = 0"
    using that by (auto simp: spec_chi2_def)
  show ?thesis using cells empty by (simp add: ss_chi2_def)
qed

lemma ss_chi2_total_zero:
  assumes "nonneg_counts T" and "total T = 0"
  shows "ss_chi2 T = 0"
proof -
  have "(\<Sum>i<shape_r T. \<Sum>j<shape_k T. chi2_cell T i j) = 0"
    by (intro sum.neutral ballI) (simp add: total_zero_cells_zero [OF assms])
  then show ?thesis by (simp add: ss_chi2_def)
qed

section \<open>Pearson's coefficient of a column with itself\<close>

lemma complete_pairs_self: "complete_pairs xs xs = map (\<lambda>x. (x, x)) (dropna xs)"
proof (induction xs)
  case Nil
  then show ?case by simp
next
  case (Cons x xs)
  then show ?case by (cases x) simp_all
qed

lemma sum_sq_zero_iff:
  fixes vs :: "real list"
  shows "(\<Sum>x\<leftarrow>vs. (x - m)\<^sup>2) = 0 \<longleftrightarrow> (\<forall>x\<in>set vs. x = m)"
proof -
  have "(\<Sum>x\<leftarrow>vs. (x - m)\<^sup>2) = 0 \<longleftrightarrow> (\<forall>y\<in>set (map (\<lambda>x. (x - m)\<^sup>2) vs). y = 0)"
    by (rule sum_list_nonneg_eq_0_iff) auto
  then show ?thesis by auto
qed

lemma mean_constant:
  assumes "vs \<noteq> []" and "\<forall>x\<in>set vs. x = v"
  shows "mean vs = v"
proof -
  have "sum_list vs = real (length vs) * v"
    using assms(2) by (induction vs) (auto simp: algebra_simps)
  then show ?thesis using assms(1) by (simp add: mean_def)
qed

lemma two_values:
  "1 < length (remdups vs) \<longleftrightarrow> (\<exists>a\<in>set vs. \<exists>b\<in>set vs. a \<noteq> b)"
proof -
  have "length (remdups vs) = card (set vs)" by (simp add: length_remdups_card_conv)
  moreover have "1 < card (set vs) \<longleftrightarrow> (\<exists>a\<in>set vs. \<exists>b\<in>set vs. a \<noteq> b)"
  proof
    assume "1 < card (set vs)"
    then obtain a b where "a \<in> set vs" "b \<in> set vs" "a \<noteq> b"
      by (metis One_nat_def card_le_Suc0_iff_eq List.finite_set not_less)
    then show "\<exists>a\<in>set vs. \<exists>b\<in>set vs. a \<noteq> b" by blast
  next
    assume "\<exists>a\<in>set vs. \<exists>b\<in>set vs. a \<noteq> b"
    then obtain a b where ab: "a \<in> set vs" "b \<in> set vs" "a \<noteq> b" by blast
    then have "{a, b} \<subseteq> set vs" by simp
    then have "card {a, b} \<le> card (set vs)" by (intro card_mono) simp_all
    then show "1 < card (set vs)" using ab by simp
  qed
  ultimately show ?thesis by simp
qed

lemma pearson_self:
  "pearson xs xs = (if 1 < length (remdups (dropna xs)) then Fin 1 else NaN)"
proof -
  define vs where "vs = dropna xs"
  define m where "m = mean vs"
  define ss where "ss = (\<Sum>x\<leftarrow>vs. (x - m)\<^sup>2)"
  have ss0: "0 \<le> ss" unfolding ss_def by (intro sum_list_nonneg) auto
  have p: "pearson xs xs =
      (if length vs < 1 then NaN
       else if sqrt (ss * ss) \<noteq> 0 then Fin (max (- 1) (min 1 (ss / sqrt (ss * ss)))) else NaN)"
    by (simp add: pearson_def complete_pairs_self Let_def comp_def vs_def m_def ss_def
        power2_eq_square)
  have sq: "sqrt (ss * ss) = ss" using ss0 by simp
  show ?thesis
  proof (cases "1 < length (remdups vs)")
    case True
    then obtain a b where ab: "a \<in> set vs" "b \<in> set vs" "a \<noteq> b"
      using two_values [of vs] by blast
    then have "\<not> (\<forall>x\<in>set vs. x = m)" by metis
    then have "ss \<noteq> 0" by (simp add: ss_def sum_sq_zero_iff)
    moreover have "\<not> length vs < 1" using ab by (cases vs) auto
    ultimately show ?thesis using True p sq by (simp add: vs_def)
  next
    case False
    show ?thesis
    proof (cases "vs = []")
      case True
      then show ?thesis using False p by (simp add: vs_def)
    next
      case ne: False
      then obtain v where v: "v \<in> set vs" by (cases vs) auto
      have all: "\<forall>x\<in>set vs. x = v" using False v two_values [of vs] by blast
      then have "m = v" unfolding m_def by (rule mean_constant [OF ne])
      then have "ss = 0" using all by (simp add: ss_def sum_sq_zero_iff)
      then show ?thesis using False p by (simp add: vs_def)
    qed
  qed
qed

section \<open>The labels of the correlation matrices\<close>

lemma getcol_present:
  assumes "n \<in> set (map cname (columns df))"
  shows "\<exists>c. getcol df n = Some c \<and> cname c = n"
proof -
  from assms obtain c where "c \<in> set (columns df)" "cname c = n" by auto
  then have "find (\<lambda>c. cname c = n) (columns df) \<noteq> None"
    by (auto simp: find_None_iff)
  then obtain c' where c': "find (\<lambda>c. cname c = n) (columns df) = Some c'" by auto
  then have "cname c' = n" by (auto simp: find_Some_iff)
  with c' show ?thesis by (simp add: getcol_def)
qed

lemma select_names:
  assumes "set names \<subseteq> set (map cname (columns df))"
  shows "map cname (select df names) = names"
  using assms
proof (induction names)
  case Nil
  then show ?case by (simp add: select_def List.map_filter_simps)
next
  case (Cons n names)
  then obtain c where "getcol df n = Some c" "cname c = n"
    using getcol_present [of n df] by auto
  with Cons show ?case by (simp add: select_def List.map_filter_simps)
qed

lemma numeric_names_subset: "set (get_numeric_columns df) \<subseteq> set (map cname (columns df))"
  by (auto simp: get_numeric_columns_def)

lemma corr_square: "is_square (corr cs)"
  by (simp add: is_square_def corr_def list_all_iff)

lemma empty_frame_square: "is_square empty_frame"
  by (simp add: is_square_def empty_frame_def)

lemma numeric_correlation_square: "is_square (numeric_correlation df)"
  by (simp add: numeric_correlation_def Let_def corr_square empty_frame_square)

lemma numeric_correlation_index:
  "index (numeric_correlation df) = get_numeric_columns df"
proof (cases "get_numeric_columns df = []")
  case True
  then show ?thesis by (simp add: numeric_correlation_def empty_frame_def)
next
  case False
  then show ?thesis
    by (simp add: numeric_correlation_def Let_def corr_def select_names [OF numeric_names_subset])
qed

lemma categorical_correlation_index:
  "index (categorical_correlation df)
    = (if length (get_categorical_columns df) < 2 then [] else get_categorical_columns df)"
  by (simp add: categorical_correlation_def Let_def empty_frame_def)

lemma categorical_correlation_cols:
  "cols (categorical_correlation df) = index (categorical_correlation df)"
  by (simp add: categorical_correlation_def Let_def empty_frame_def)

lemma numeric_correlation_cols:
  "cols (numeric_correlation df) = index (numeric_correlation df)"
  using numeric_correlation_square [of df] by (simp add: is_square_def)

section \<open>Rounding and duplicate counts\<close>




lemma count_duplicated_from:
  "count_true (duplicated_from seen xs) + card (set seen \<union> set xs) = length xs + card (set seen)"
proof (induction xs arbitrary: seen)
  case Nil
  then show ?case by (simp add: count_true_def)
next
  case (Cons x xs)
  have u: "set (x # seen) \<union> set xs = set seen \<union> set (x # xs)" by auto
  have ih: "count_true (duplicated_from (x # seen) xs) + card (set seen \<union> set (x # xs))
      = length xs + card (set (x # seen))"
    using Cons.IH [of "x # seen"] unfolding u .
  show ?case
  proof (cases "x \<in> set seen")
    case True
    then have "card (set (x # seen)) = card (set seen)" by (simp add: insert_absorb)
    with ih True show ?thesis by (simp add: count_true_def)
  next
    case False
    then have "card (set (x # seen)) = Suc (card (set seen))" by simp
    with ih False show ?thesis by (simp add: count_true_def)
  qed
qed

lemma count_duplicated: "count_true (duplicated xs) = length xs - card (set xs)"
  using count_duplicated_from [of "[]" xs] by (simp add: duplicated_def)

lemma count_duplicated_le: "count_true (duplicated xs) \<le> length xs"
  by (simp add: count_duplicated)



lemma float64_of_small_int:
  assumes "\<bar>i\<bar> \<le> 2 ^ 53"
  shows "float64_of_int i = real_of_int i"
  using assms by (simp add: float64_of_int_def)

text \<open>Beyond \<open>2^53\<close> neighbouring integers become one float.\<close>

lemma float64_of_neighbours: "float64_of_int (2 ^ 53 + 1) = float64_of_int (2 ^ 53)"
  by code_simp

section \<open>Looking a column up in the outlier report\<close>












section \<open>The example inputs evaluated\<close>

lemma sample_numeric: "get_numeric_columns sample_df = [''flag'', ''member'']"
  by (simp add: get_numeric_columns_def sample_df_def int_flag_def bool_flag_def city_def)

lemma sample_categorical: "get_categorical_columns sample_df = [''member'', ''city'']"
  by (simp add: get_categorical_columns_def sample_df_def int_flag_def bool_flag_def city_def
      is_categorical_def is_numeric_def)

lemma py_round_third: "py_round (100 / 3) 2 = 3333 / 100"
  by code_simp




lemma py_round_one: "py_round 1 2 = 1"
  by code_simp

lemma py_round_two_thirds: "py_round (200 / 3) 2 = 6667 / 100"
  by code_simp

lemma py_round_five_sixths: "py_round (250 / 3) 2 = 8333 / 100"
  by code_simp






lemma rounded_third: "rounded_to 2 (100 / 3) (3333 / 100)"
  unfolding rounded_to_def by (intro conjI exI [of _ 3333]) simp_all















section \<open>The outcomes of a load\<close>





section \<open>The claims about the correlation engine's formulas\<close>

text \<open>
  Claim C1. For every contingency table, \<open>cramers_v\<close> takes the chi-squared statistic
  of the table and the grand total \<open>n\<close>, sets \<open>phi2 = chi2 / n\<close>, corrects it to
  \<open>max 0 (phi2 - (k-1)(r-1)/(n-1))\<close>, corrects \<open>r\<close> and \<open>k\<close> to \<open>r - (r-1)^2/(n-1)\<close> and
  \<open>k - (k-1)^2/(n-1)\<close>, all three corrected terms being 0 when \<open>n \<le> 1\<close>, and with
  \<open>denom\<close> the smaller of \<open>kcorr - 1\<close> and \<open>rcorr - 1\<close> returns 0 when \<open>n = 0\<close> or
  \<open>denom \<le> 0\<close> and the square root of \<open>phi2corr / denom\<close> otherwise. The right-hand side
  is the specification's wording, the left-hand side the function as the source has it.
\<close>

theorem cramers_v_formula: "cramers_v T = spec_cramers_v T"
proof (cases "1 < total T")
  case True
  then have n: "total T \<noteq> 0" "\<not> total T \<le> 1" by simp_all
  have k: "real_of_int ((int (shape_k T) - 1) * (int (shape_r T) - 1))
      = (real (shape_k T) - 1) * (real (shape_r T) - 1)" by simp
  show ?thesis
    using True n
    by (simp add: cramers_v_def spec_cramers_v_def spec_denom_def spec_kcorr_def
        spec_rcorr_def spec_phi2corr_def spec_phi2_def Let_def)
next
  case False
  then have "total T \<le> 1" by simp
  then show ?thesis
    using False
    by (simp add: cramers_v_def spec_cramers_v_def spec_denom_def spec_kcorr_def
        spec_rcorr_def Let_def)
qed

text \<open>
  Claim C2, as the code has it. For every contingency table of non-negative integer
  counts in which the grand total and every product of a row total and a column total
  stay below \<open>2^63\<close>, the chi-squared statistic is the sum over all cells of \<open>(observed - expected)^2 / expected\<close>
  with \<open>expected = row total * column total / grand total\<close>, a cell whose expected
  frequency is 0 contributing 0; and the statistic is 0 when the grand total is 0, the
  matrix with no cell included.
\<close>

theorem ss_chi2_formula:
  assumes "nonneg_counts T" and "int64_safe T"
  shows "ss_chi2 T = spec_chi2 T
    \<and> (total T = 0 \<longrightarrow> ss_chi2 T = 0)
    \<and> (shape_r T * shape_k T = 0 \<longrightarrow> ss_chi2 T = 0)"
proof -
  have "ss_chi2 T = 0" if "shape_r T * shape_k T = 0"
    using that by (simp add: ss_chi2_def)
  then show ?thesis
    using ss_chi2_eq_spec [OF assms] ss_chi2_total_zero [OF assms(1)] by simp
qed

theorem ss_chi2_formula_witness:
  "nonneg_counts (of_rows [[1, 0], [0, 2]]) \<and> int64_safe (of_rows [[1, 0], [0, 2]])
    \<and> ss_chi2 (of_rows [[1, 0], [0, 2]]) = 3
    \<and> nonneg_counts (of_rows [[0, 0]]) \<and> int64_safe (of_rows [[0, 0]])
    \<and> total (of_rows [[0, 0]]) = 0
    \<and> ss_chi2 (of_rows [[0, 0]]) = 0
    \<and> nonneg_counts (of_rows []) \<and> int64_safe (of_rows [])
    \<and> shape_r (of_rows []) * shape_k (of_rows []) = 0
    \<and> ss_chi2 (of_rows []) = 0"
proof -
  have nn: "nonneg_counts (of_rows [[1, 0], [0, 2]])"
    by (simp add: nonneg_counts_def of_rows_def less_Suc_eq eval_nat_numeral)
  have sf: "int64_safe (of_rows [[1, 0], [0, 2]])"
    by (simp add: int64_safe_def row_sum_def col_sum_def total_def of_rows_def less_Suc_eq
        lessThan_Suc eval_nat_numeral)
  have v: "spec_chi2 (of_rows [[1, 0], [0, 2]]) = 3"
    by (simp add: spec_chi2_def spec_chi2_cell_def spec_expected_def row_sum_def col_sum_def
        total_def of_rows_def lessThan_Suc eval_nat_numeral)
  have nn0: "nonneg_counts (of_rows [[0, 0]])"
    by (simp add: nonneg_counts_def of_rows_def less_Suc_eq eval_nat_numeral)
  have sf0: "int64_safe (of_rows [[0, 0]])"
    by (simp add: int64_safe_def row_sum_def col_sum_def total_def of_rows_def less_Suc_eq
        lessThan_Suc eval_nat_numeral)
  have t0: "total (of_rows [[0, 0]]) = 0"
    by (simp add: total_def of_rows_def lessThan_Suc eval_nat_numeral)
  have nne: "nonneg_counts (of_rows [])"
    by (simp add: nonneg_counts_def of_rows_def)
  have sfe: "int64_safe (of_rows [])"
    by (simp add: int64_safe_def total_def of_rows_def)
  have se: "shape_r (of_rows []) * shape_k (of_rows []) = 0"
    by (simp add: of_rows_def)
  show ?thesis
    using ss_chi2_formula [OF nn sf] ss_chi2_formula [OF nn0 sf0] ss_chi2_formula [OF nne sfe]
      nn sf v nn0 sf0 t0 nne sfe se
    by simp
qed

text \<open>
  The claim as worded covers every table of non-negative counts. With 3100000000 rows in
  one cell the product of the first row total and the first column total passes \<open>2^63\<close>
  and wraps to a negative integer: the expected frequency of that cell is negative and so
  is the statistic, while the sum the claim describes is 3100000001.
\<close>

theorem ss_chi2_wrap_counterexample:
  "nonneg_counts (of_rows [[3100000000, 0], [0, 1]])
    \<and> expected (of_rows [[3100000000, 0], [0, 1]]) 0 0 < 0
    \<and> ss_chi2 (of_rows [[3100000000, 0], [0, 1]]) < 0
    \<and> spec_chi2 (of_rows [[3100000000, 0], [0, 1]]) = 3100000001"
proof -
  have nn: "nonneg_counts (of_rows [[3100000000, 0], [0, 1]])"
    by (simp add: nonneg_counts_def of_rows_def less_Suc_eq eval_nat_numeral)
  have sums: "row_sum (of_rows [[3100000000, 0], [0, 1]]) 0 = 3100000000"
    "row_sum (of_rows [[3100000000, 0], [0, 1]]) (Suc 0) = 1"
    "col_sum (of_rows [[3100000000, 0], [0, 1]]) 0 = 3100000000"
    "col_sum (of_rows [[3100000000, 0], [0, 1]]) (Suc 0) = 1"
    "total (of_rows [[3100000000, 0], [0, 1]]) = 3100000001"
    by (simp_all add: row_sum_def col_sum_def total_def of_rows_def lessThan_Suc
        eval_nat_numeral)
  have e: "expected (of_rows [[3100000000, 0], [0, 1]]) 0 0 = - 8836744073709551616 / 3100000001"
    "expected (of_rows [[3100000000, 0], [0, 1]]) 0 (Suc 0) = 3100000000 / 3100000001"
    "expected (of_rows [[3100000000, 0], [0, 1]]) (Suc 0) 0 = 3100000000 / 3100000001"
    "expected (of_rows [[3100000000, 0], [0, 1]]) (Suc 0) (Suc 0) = 1 / 3100000001"
    by (simp_all add: expected_def sums int64_def)
  have o: "observed (of_rows [[3100000000, 0], [0, 1]]) 0 0 = 3100000000"
    "observed (of_rows [[3100000000, 0], [0, 1]]) 0 (Suc 0) = 0"
    "observed (of_rows [[3100000000, 0], [0, 1]]) (Suc 0) 0 = 0"
    "observed (of_rows [[3100000000, 0], [0, 1]]) (Suc 0) (Suc 0) = 1"
    by (simp_all add: of_rows_def)
  have sh: "shape_r (of_rows [[3100000000, 0], [0, 1]]) = Suc (Suc 0)"
    "shape_k (of_rows [[3100000000, 0], [0, 1]]) = Suc (Suc 0)"
    by (simp_all add: of_rows_def)
  have c: "ss_chi2 (of_rows [[3100000000, 0], [0, 1]]) < 0"
    by (simp add: ss_chi2_def sh chi2_cell_def e o np_div_def power2_eq_square)
  have s: "spec_chi2 (of_rows [[3100000000, 0], [0, 1]]) = 3100000001"
    by (simp add: spec_chi2_def sh spec_chi2_cell_def spec_expected_def sums o power2_eq_square)
  show ?thesis using nn e(1) c s by simp
qed

section \<open>The claims about the column classifier\<close>

text \<open>
  Claim C5, as the code has it. A column is numeric exactly when its declared type is
  integer, floating-point or boolean (of the declared types the model knows). It is
  categorical exactly when it is boolean, text-typed, or has at most the threshold of
  distinct non-missing values while not being numeric. A column is both numeric and
  categorical exactly when it is boolean; an integer or floating-point column is never
  categorical, whatever the number of its distinct values.
\<close>

theorem classifier_rule:
  "(is_numeric s \<longleftrightarrow> cdtype s = Int64 \<or> cdtype s = Float64 \<or> cdtype s = Bool)
    \<and> (is_categorical s max_unique \<longleftrightarrow>
          cdtype s = Bool \<or> cdtype s = Object \<or> (int (nunique s) \<le> max_unique \<and> \<not> is_numeric s))
    \<and> (is_numeric s \<and> is_categorical s max_unique \<longleftrightarrow> cdtype s = Bool)
    \<and> (cdtype s = Int64 \<or> cdtype s = Float64 \<longrightarrow> \<not> is_categorical s max_unique)"
  by (cases "cdtype s") (auto simp: is_numeric_def is_categorical_def Let_def)

text \<open>An integer column of the values 0 and 1 is numeric and not categorical.\<close>

theorem classifier_rule_witness:
  "cdtype int_flag = Int64 \<and> int (nunique int_flag) \<le> 50
    \<and> is_numeric int_flag \<and> \<not> is_categorical int_flag 50"
  using classifier_rule [of int_flag 50] by (simp add: int_flag_def nunique_def)

text \<open>
  The claim as worded has only integer and floating-point columns numeric and no numeric
  column categorical. A boolean column is numeric, \<^verbatim>\<open>is_numeric_dtype\<close> being true of
  the boolean type, and categorical by the first test of \<^verbatim>\<open>is_categorical\<close>.
\<close>

theorem classifier_counterexample:
  "cdtype bool_flag = Bool \<and> is_numeric bool_flag \<and> is_categorical bool_flag 50
    \<and> \<not> (is_numeric bool_flag \<longleftrightarrow> cdtype bool_flag = Int64 \<or> cdtype bool_flag = Float64)"
  by (simp add: bool_flag_def is_numeric_def is_categorical_def)

text \<open>
  Claim C10, as the code has it. A boolean column of a table is returned by both
  \<open>get_numeric_columns\<close> and \<open>get_categorical_columns\<close> and is a row and a column of
  the numeric correlation matrix. It is a row and a column of the categorical matrix when
  the table has at least two categorical columns; with the boolean column as the only
  categorical one that matrix is empty.
\<close>

theorem bool_column_participation:
  assumes "c \<in> set (columns df)" and "cdtype c = Bool"
  shows "cname c \<in> set (get_numeric_columns df)
    \<and> cname c \<in> set (get_categorical_columns df)
    \<and> cname c \<in> set (index (numeric_correlation df))
    \<and> cname c \<in> set (cols (numeric_correlation df))
    \<and> (if length (get_categorical_columns df) < 2
        then categorical_correlation df = empty_frame
        else cname c \<in> set (index (categorical_correlation df))
           \<and> cname c \<in> set (cols (categorical_correlation df)))"
proof -
  have n: "cname c \<in> set (get_numeric_columns df)"
    using assms by (auto simp: get_numeric_columns_def)
  have k: "cname c \<in> set (get_categorical_columns df)"
    using assms by (auto simp: get_categorical_columns_def is_categorical_def)
  have e: "categorical_correlation df = empty_frame" if "length (get_categorical_columns df) < 2"
    using that by (simp add: categorical_correlation_def)
  show ?thesis
    using n k e
    by (simp add: numeric_correlation_index numeric_correlation_cols
        categorical_correlation_index categorical_correlation_cols)
qed

theorem bool_column_participation_witness:
  "bool_flag \<in> set (columns sample_df) \<and> cdtype bool_flag = Bool
    \<and> cname bool_flag \<in> set (index (numeric_correlation sample_df))
    \<and> cname bool_flag \<in> set (index (categorical_correlation sample_df))
    \<and> bool_flag \<in> set (columns single_bool_df)
    \<and> categorical_correlation single_bool_df = empty_frame"
proof -
  have a: "bool_flag \<in> set (columns sample_df)" by (simp add: sample_df_def)
  have b: "cdtype bool_flag = Bool" by (simp add: bool_flag_def)
  have c: "bool_flag \<in> set (columns single_bool_df)" by (simp add: single_bool_df_def)
  have d: "get_categorical_columns single_bool_df = [''member'']"
    by (simp add: get_categorical_columns_def single_bool_df_def bool_flag_def is_categorical_def)
  show ?thesis
    using bool_column_participation [OF a b] bool_column_participation [OF c b] a b c d
    by (simp add: sample_categorical)
qed

text \<open>
  The claim as worded has every boolean column take part in the categorical matrix. In a
  table whose only column is boolean, the guard on fewer than two categorical columns
  returns the empty frame.
\<close>

theorem bool_column_counterexample:
  "bool_flag \<in> set (columns single_bool_df) \<and> cdtype bool_flag = Bool
    \<and> cname bool_flag \<in> set (get_numeric_columns single_bool_df)
    \<and> cname bool_flag \<in> set (get_categorical_columns single_bool_df)
    \<and> index (categorical_correlation single_bool_df) = []
    \<and> cols (categorical_correlation single_bool_df) = []
    \<and> cname bool_flag \<notin> set (index (categorical_correlation single_bool_df))"
  by (simp add: single_bool_df_def bool_flag_def categorical_correlation_def
      get_categorical_columns_def get_numeric_columns_def is_categorical_def empty_frame_def)

section \<open>The claim about the correlation matrices\<close>

text \<open>
  Claim C3 at an input where the code departs from it. The claim has 1.0 on every
  diagonal entry of both matrices, and a 1 by 1 numeric matrix with the entry 1.0 for a
  table with exactly one numeric column. \<open>categorical_correlation\<close> writes 1.0 on its
  diagonal by hand; \<open>numeric_correlation\<close> returns what pandas' \<^verbatim>\<open>corr\<close> computes. For
  the table whose one column is the integer 7 in both of its two rows, the sum of squared
  deviations is 0, the divisor is 0, and the single entry of the numeric matrix is NaN.
\<close>

theorem numeric_correlation_constant_column:
  "wf_dataframe constant_df \<and> get_numeric_columns constant_df = [''n'']
    \<and> numeric_correlation constant_df = \<lparr>index = [''n''], cols = [''n''], data = [[NaN]]\<rparr>"
proof -
  have n: "get_numeric_columns constant_df = [''n'']"
    by (simp add: get_numeric_columns_def constant_df_def)
  have m: "numeric_correlation constant_df = \<lparr>index = [''n''], cols = [''n''], data = [[NaN]]\<rparr>"
    by (simp add: numeric_correlation_def n Let_def)
      (simp add: select_def getcol_def List.map_filter_simps
        constant_df_def corr_def pearson_self floats_def float64_of_int_def)
  have w: "wf_dataframe constant_df" by (simp add: wf_dataframe_def constant_df_def)
  show ?thesis using n m w by simp
qed

section \<open>The claims about the cleaning diagnostics\<close>








section \<open>The claim about loading\<close>




end
